theory Spec2Isabelle
  imports Main
begin

section \<open>monaco-service: the CloudEvent receiver of main.go\<close>

text \<open>
  The development follows \<^verbatim>\<open>src/main.go\<close>. Everything the Go code does besides
  returning a value is written out: the lines it logs, the handler it invokes, the events
  sent while it runs, and the way it leaves (a \<^verbatim>\<open>return\<close>, a call of
  \<^verbatim>\<open>log.Fatalf\<close>, which ends the process with exit status 1, or a panic).

  The functions of the imported Go modules (\<^verbatim>\<open>cloudevents\<close>, \<^verbatim>\<open>keptn\<close>,
  \<^verbatim>\<open>keptnv2\<close>, \<^verbatim>\<open>envconfig\<close>) and the two handlers of
  \<^verbatim>\<open>eventhandlers.go\<close> are not part of \<^verbatim>\<open>main.go\<close>; they are parameters
  of the model, collected in the record \<open>externals\<close>.
\<close>

subsection \<open>Data\<close>

text \<open>
  A \<^verbatim>\<open>cloudevents.Event\<close>, reduced to what \<^verbatim>\<open>main.go\<close> reads of it: the type,
  the id, the source, the extension attributes and the undecoded payload. The extensions
  are an association list read with \<open>map_of\<close>.
\<close>

record event =
  ev_type :: string
  ev_id :: string
  ev_source :: string
  ev_extensions :: "(string \<times> string) list"
  ev_data :: string

text \<open>\<^verbatim>\<open>type envConfig struct\<close> (main.go, lines 18 to 27).\<close>

record envConfig =
  Port :: int
  Path :: string
  Env :: string
  ConfigurationServiceUrl :: string

text \<open>
  \<^verbatim>\<open>keptn.KeptnOpts\<close>, with the two fields \<^verbatim>\<open>_main\<close> assigns. The global
  \<^verbatim>\<open>var keptnOptions = keptn.KeptnOpts{}\<close> starts from Go's zero values.
\<close>

record KeptnOpts =
  UseLocalFileSystem :: bool
  ConfigurationServiceURL :: string

definition keptnOptions :: KeptnOpts where
  "keptnOptions = \<lparr>UseLocalFileSystem = False, ConfigurationServiceURL = []\<rparr>"

text \<open>
  \<^verbatim>\<open>keptnv2.EventData\<close> and \<^verbatim>\<open>type MonacoStartedEventData struct { keptnv2.EventData }\<close>
  (main.go, lines 29 to 31).
\<close>

record EventData =
  Project :: string
  Stage :: string
  Service :: string
  Labels :: "(string \<times> string) list"
  Status :: string
  Result :: string
  Message :: string

record MonacoStartedEventData =
  EventData :: EventData

text \<open>The Keptn handle returned by \<^verbatim>\<open>keptnv2.NewKeptn\<close>; main.go reads one field of it.\<close>

record Keptn =
  KeptnContext :: string

definition ServiceName :: string where
  "ServiceName = ''monaco-service''"

definition MonacoEvent :: string where
  "MonacoEvent = ''monaco''"

definition ConfigureMonitoringTaskName :: string where
  "ConfigureMonitoringTaskName = ''configure-monitoring''"

text \<open>
  \<^verbatim>\<open>keptnv2.GetTriggeredEventType\<close>, as the comments of main.go give it (lines 76, 133
  and 145): \<^verbatim>\<open>sh.keptn.event.${EVENTNAME}.triggered\<close>.
\<close>

definition GetTriggeredEventType :: "string \<Rightarrow> string" where
  "GetTriggeredEventType task = ''sh.keptn.event.'' @ task @ ''.triggered''"

subsection \<open>Logging\<close>

text \<open>
  \<^verbatim>\<open>keptn.NewLogger(shkeptncontext, eventID, ServiceName)\<close> binds the three values every
  line of that logger is tagged with.
\<close>

record logger =
  lg_keptnContext :: string
  lg_eventID :: string
  lg_serviceName :: string

definition NewLogger :: "string \<Rightarrow> string \<Rightarrow> string \<Rightarrow> logger" where
  "NewLogger shkeptncontext eventID service =
     \<lparr>lg_keptnContext = shkeptncontext, lg_eventID = eventID, lg_serviceName = service\<rparr>"

datatype log_line =
    LogInfo logger string
  | LogError logger string
  | LogFatal string

subsection \<open>Outcomes\<close>

text \<open>
  Modelled from the spec: the envelope of an outbound event is built by the Keptn library
  and is not declared under src/. An outbound event carries what section 6 of the
  specification lists: the type, the source, the id of the triggering event (the causation
  reference), the correlation id, for a finished event the status, and a message.
\<close>

datatype status = succeeded | failed | errored

record outbound =
  ob_type :: string
  ob_source :: string
  ob_triggeredid :: string
  ob_shkeptncontext :: string
  ob_status :: "status option"
  ob_message :: string

text \<open>
  One invocation of a handler: the events it sent and how it ended, by returning
  \<^verbatim>\<open>nil\<close> (\<open>HReturn None\<close>), by returning an error, or by a panic.
\<close>

datatype handler_outcome = HReturn "string option" | HPanic string

record handler_run =
  hr_sent :: "outbound list"
  hr_outcome :: handler_outcome

datatype 'c invocation =
    ConfigureMonitoringCall Keptn event 'c
  | MonacoCall Keptn event MonacoStartedEventData

text \<open>
  The \<^verbatim>\<open>return\<close> statements of \<^verbatim>\<open>processKeptnCloudEvent\<close>, by line of main.go.
\<close>

datatype return_site = Line64 | Line71 | Line139 | Line151 | Line206

datatype outcome =
    Returned return_site "string option"
  | Exited int
  | Panicked string

record 'c run =
  run_log :: "log_line list"
  run_invoked :: "'c invocation list"
  run_sent :: "outbound list"
  run_outcome :: outcome

subsection \<open>What main.go calls but does not define\<close>

text \<open>
  \<^item> \<open>NewKeptn\<close>: \<^verbatim>\<open>keptnv2.NewKeptn(&event, keptnOptions)\<close>, a pair of a handle (or
    \<^verbatim>\<open>nil\<close>) and an error (or \<^verbatim>\<open>nil\<close>), as in Go;
  \<^item> \<open>DataAs_ConfigureMonitoring\<close>, \<open>DataAs_Monaco\<close>: \<^verbatim>\<open>event.DataAs(data)\<close> for the
    two payload structures, the decoded structure or the error;
  \<^item> the two handlers of eventhandlers.go.
\<close>

record 'c externals =
  NewKeptn :: "event \<Rightarrow> KeptnOpts \<Rightarrow> Keptn option \<times> string option"
  DataAs_ConfigureMonitoring :: "event \<Rightarrow> string + 'c"
  DataAs_Monaco :: "event \<Rightarrow> string + MonacoStartedEventData"
  HandleConfigureMonitoringTriggeredEvent :: "Keptn \<Rightarrow> event \<Rightarrow> 'c \<Rightarrow> handler_run"
  HandleMonacoTriggeredEvent :: "Keptn \<Rightarrow> event \<Rightarrow> MonacoStartedEventData \<Rightarrow> handler_run"

text \<open>
  \<^verbatim>\<open>event.Context.ExtensionAs(name, &obj)\<close>: the value of the extension is stored in
  \<open>obj\<close>; when the extension is absent \<open>obj\<close> keeps its value and an error is returned.
\<close>

definition ExtensionAs :: "event \<Rightarrow> string \<Rightarrow> string \<Rightarrow> string \<times> string option" where
  "ExtensionAs event name obj =
     (case map_of (ev_extensions event) name of
        None \<Rightarrow> (obj, Some (''extension '' @ name @ '' does not exist''))
      | Some v \<Rightarrow> (v, None))"

subsection \<open>parseKeptnCloudEventPayload\<close>

text \<open>
  main.go, lines 40 to 47. \<^verbatim>\<open>log.Fatalf\<close> prints and calls \<^verbatim>\<open>os.Exit(1)\<close>, so the
  \<^verbatim>\<open>return err\<close> below it is never reached: the function either ends the process
  (\<open>Fatal\<close>, with the line printed) or returns \<^verbatim>\<open>nil\<close> with the structure filled.
\<close>

datatype 'a fatal = Fatal string | Continue 'a

definition parseKeptnCloudEventPayload ::
  "(event \<Rightarrow> string + 'd) \<Rightarrow> event \<Rightarrow> ('d \<times> string option) fatal" where
  "parseKeptnCloudEventPayload DataAs event =
     (case DataAs event of
        Inl err \<Rightarrow> Fatal (''Got Data Error: '' @ err)
      | Inr data \<Rightarrow> Continue (data, None))"

subsection \<open>processKeptnCloudEvent\<close>

text \<open>
  \<^verbatim>\<open>return Handle...(myKeptn, event, eventData)\<close>: the handler runs once, and its result
  is the result of \<^verbatim>\<open>processKeptnCloudEvent\<close>. Nothing is deferred and nothing recovers,
  so a panic of the handler leaves \<^verbatim>\<open>processKeptnCloudEvent\<close> as a panic.
\<close>

definition return_handler ::
  "return_site \<Rightarrow> log_line list \<Rightarrow> 'c invocation \<Rightarrow> handler_run \<Rightarrow> 'c run" where
  "return_handler site lg call h =
     \<lparr>run_log = lg, run_invoked = [call], run_sent = hr_sent h,
      run_outcome = (case hr_outcome h of
                       HReturn err \<Rightarrow> Returned site err
                     | HPanic msg \<Rightarrow> Panicked msg)\<rparr>"

definition leave :: "log_line list \<Rightarrow> outcome \<Rightarrow> 'c run" where
  "leave lg out = \<lparr>run_log = lg, run_invoked = [], run_sent = [], run_outcome = out\<rparr>"

text \<open>
  main.go, lines 54 to 207. The context argument is not used. \<open>opts\<close> is the value of
  the global \<^verbatim>\<open>keptnOptions\<close> when the event arrives. \<^verbatim>\<open>myKeptn.KeptnContext\<close>
  on a \<^verbatim>\<open>nil\<close> handle is a nil pointer dereference.
\<close>

definition processKeptnCloudEvent :: "'c externals \<Rightarrow> KeptnOpts \<Rightarrow> event \<Rightarrow> 'c run" where
  "processKeptnCloudEvent X opts event =
     (let (shkeptncontext, _) = ExtensionAs event ''shkeptncontext'' [];
          logger = NewLogger shkeptncontext (ev_id event) ServiceName;
          log1 = [LogInfo logger ''Initializing Keptn Handler''];
          (myKeptn, err) = NewKeptn X event opts
      in
      case err of
        Some e \<Rightarrow> leave log1 (Returned Line64 (Some (''Could not create Keptn Handler: '' @ e)))
      | None \<Rightarrow>
     (case myKeptn of
        None \<Rightarrow> leave log1 (Panicked ''invalid memory address or nil pointer dereference'')
      | Some k \<Rightarrow>
     (let log2 = log1 @ [LogInfo logger
                   (''gotEvent('' @ ev_type event @ ''): '' @ KeptnContext k @ '' - '' @ ev_id event)]
      in
      case err of
        Some e \<Rightarrow>
          leave (log2 @ [LogError logger (''failed to parse incoming cloudevent: '' @ e)])
            (Returned Line71 err)
      | None \<Rightarrow>
      if ev_type event = GetTriggeredEventType ConfigureMonitoringTaskName then
        (let log3 = log2 @ [LogInfo logger ''Processing configure-monitoring.Triggered Event'']
         in case parseKeptnCloudEventPayload (DataAs_ConfigureMonitoring X) event of
              Fatal line \<Rightarrow> leave (log3 @ [LogFatal line]) (Exited 1)
            | Continue (eventData, _) \<Rightarrow>
                return_handler Line139 log3 (ConfigureMonitoringCall k event eventData)
                  (HandleConfigureMonitoringTriggeredEvent X k event eventData))
      else if ev_type event = GetTriggeredEventType MonacoEvent then
        (let log3 = log2 @ [LogInfo logger ''Processing sh.keptn.event.monaco.triggered Event'']
         in case parseKeptnCloudEventPayload (DataAs_Monaco X) event of
              Fatal line \<Rightarrow> leave (log3 @ [LogFatal line]) (Exited 1)
            | Continue (eventData, _) \<Rightarrow>
                return_handler Line151 log3 (MonacoCall k event eventData)
                  (HandleMonacoTriggeredEvent X k event eventData))
      else
        leave (log2 @ [LogError logger (''Unhandled Keptn Cloud Event: '' @ ev_type event)])
          (Returned Line206 None))))"

subsection \<open>Start-up: envConfig and the Keptn options\<close>

text \<open>
  \<^verbatim>\<open>envconfig.Process("", &env)\<close> reads each field of \<^verbatim>\<open>envConfig\<close> from the
  environment variable its tag names (main.go, lines 18 to 27). A variable that is not
  set takes the \<^verbatim>\<open>default\<close> of the tag. The text of the port is turned into a number
  by the library; that conversion is the parameter \<open>ParseInt\<close>, and when it fails
  \<^verbatim>\<open>Process\<close> returns an error. The environment is an association list.
\<close>

definition field_value :: "(string \<times> string) list \<Rightarrow> string \<Rightarrow> string \<Rightarrow> string" where
  "field_value environ key def = (case map_of environ key of None \<Rightarrow> def | Some v \<Rightarrow> v)"

definition envconfig_Process ::
  "(string \<Rightarrow> int option) \<Rightarrow> (string \<times> string) list \<Rightarrow> string + envConfig" where
  "envconfig_Process ParseInt environ =
     (case ParseInt (field_value environ ''RCV_PORT'' ''8080'') of
        None \<Rightarrow> Inl ''envconfig.Process: assigning RCV_PORT to Port''
      | Some p \<Rightarrow>
          Inr \<lparr>Port = p,
               Path = field_value environ ''RCV_PATH'' ''/'',
               Env = field_value environ ''ENV'' ''local'',
               ConfigurationServiceUrl = field_value environ ''CONFIGURATION_SERVICE'' []\<rparr>)"

text \<open>
  \<^verbatim>\<open>_main\<close>, lines 229 to 235: the assignments to the global \<^verbatim>\<open>keptnOptions\<close>.
\<close>

definition main_keptnOptions :: "envConfig \<Rightarrow> KeptnOpts \<Rightarrow> KeptnOpts" where
  "main_keptnOptions env opts =
     (let opts1 = (if Env env = ''local'' then opts\<lparr>UseLocalFileSystem := True\<rparr> else opts)
      in opts1\<lparr>ConfigurationServiceURL := ConfigurationServiceUrl env\<rparr>)"

text \<open>
  \<^verbatim>\<open>_main\<close>, line 246: the receiver listens where
  \<^verbatim>\<open>cloudevents.WithPath(env.Path)\<close> and \<^verbatim>\<open>cloudevents.WithPort(env.Port)\<close> say.
\<close>

record listener =
  ln_path :: string
  ln_port :: int

definition main_listener :: "envConfig \<Rightarrow> listener" where
  "main_listener env = \<lparr>ln_path = Path env, ln_port = Port env\<rparr>"

text \<open>
  \<^verbatim>\<open>main\<close>, lines 216 to 223, up to the start of the receiver: a failure of
  \<^verbatim>\<open>envconfig.Process\<close> ends the process through \<^verbatim>\<open>log.Fatalf\<close>; otherwise the global
  options (starting from \<open>keptnOptions\<close>) and the listener are set up.
\<close>

definition main_startup ::
  "(string \<Rightarrow> int option) \<Rightarrow> (string \<times> string) list \<Rightarrow> outcome + (KeptnOpts \<times> listener)" where
  "main_startup ParseInt environ =
     (case envconfig_Process ParseInt environ of
        Inl err \<Rightarrow> Inl (Exited 1)
      | Inr env \<Rightarrow> Inr (main_keptnOptions env keptnOptions, main_listener env))"

subsection \<open>Lifecycle events\<close>

text \<open>
  The event types of a task (main.go, lines 76 to 79):
  \<^verbatim>\<open>sh.keptn.event.${EVENTNAME}.started\<close> and \<^verbatim>\<open>sh.keptn.event.${EVENTNAME}.finished\<close>.
\<close>

definition GetStartedEventType :: "string \<Rightarrow> string" where
  "GetStartedEventType task = ''sh.keptn.event.'' @ task @ ''.started''"

definition GetFinishedEventType :: "string \<Rightarrow> string" where
  "GetFinishedEventType task = ''sh.keptn.event.'' @ task @ ''.finished''"

text \<open>
  The finished events among the events sent that answer a given triggering event: the
  type is the finished type of some task and the causation reference is the id of the
  trigger.
\<close>

definition finished_for :: "event \<Rightarrow> string \<Rightarrow> outbound \<Rightarrow> bool" where
  "finished_for trigger task ob \<longleftrightarrow>
     ob_type ob = GetFinishedEventType task \<and> ob_triggeredid ob = ev_id trigger"

definition count_finished :: "event \<Rightarrow> string \<Rightarrow> outbound list \<Rightarrow> nat" where
  "count_finished trigger task obs = length (filter (finished_for trigger task) obs)"

subsection \<open>The task session and the handlers, after the specification\<close>

text \<open>
  Modelled from the spec: the handlers \<^verbatim>\<open>HandleMonacoTriggeredEvent\<close> and
  \<^verbatim>\<open>HandleConfigureMonitoringTriggeredEvent\<close> (eventhandlers.go) and the sending of
  the started and finished events are not under src/. The definitions of this subsection
  follow sections 3, 4.2, 4.3, 4.4 and 6 of the specification.

  The correlation context (section 3) has the correlation id, the id of the triggering
  event and the service name. \<open>extract_context\<close> is the \<^verbatim>\<open>extract\<close> of section
  4.2: it reads the correlation extension and falls back to the empty string when the
  extension is absent. The read is the \<open>ExtensionAs\<close> of main.go, line 57.
\<close>

record CorrelationContext =
  cc_correlationId :: string
  cc_triggeringEventId :: string
  cc_serviceName :: string

definition extract_context :: "event \<Rightarrow> CorrelationContext" where
  "extract_context envelope =
     \<lparr>cc_correlationId = fst (ExtensionAs envelope ''shkeptncontext'' []),
      cc_triggeringEventId = ev_id envelope,
      cc_serviceName = ServiceName\<rparr>"

text \<open>
  Modelled from the spec: the task session wraps one correlation context; \<open>emitStarted\<close>
  builds the envelope of type \<^verbatim>\<open><prefix>.<taskName>.started\<close>, correlated to the
  triggering event id and carrying the correlation id of the session; \<open>emitFinished\<close>
  builds \<^verbatim>\<open><prefix>.<taskName>.finished\<close> with a status and a message.
\<close>

record TaskSession =
  ts_context :: CorrelationContext

definition emitStarted :: "TaskSession \<Rightarrow> string \<Rightarrow> outbound" where
  "emitStarted session taskName =
     \<lparr>ob_type = GetStartedEventType taskName,
      ob_source = cc_serviceName (ts_context session),
      ob_triggeredid = cc_triggeringEventId (ts_context session),
      ob_shkeptncontext = cc_correlationId (ts_context session),
      ob_status = None,
      ob_message = []\<rparr>"

definition emitFinished :: "TaskSession \<Rightarrow> string \<Rightarrow> status \<Rightarrow> string \<Rightarrow> outbound" where
  "emitFinished session taskName st message =
     \<lparr>ob_type = GetFinishedEventType taskName,
      ob_source = cc_serviceName (ts_context session),
      ob_triggeredid = cc_triggeringEventId (ts_context session),
      ob_shkeptncontext = cc_correlationId (ts_context session),
      ob_status = Some st,
      ob_message = message\<rparr>"

text \<open>
  Modelled from the spec: a handler is invoked with the session of the triggering
  envelope, the envelope and the typed payload. It emits the started event and runs the
  task, which is outside the core and is the parameter \<open>task\<close>. When the task succeeds the
  handler emits the finished event with status \<open>succeeded\<close> and returns success. A
  failure of the task is an error of the handler invocation and a fault is a panic; for
  these the specification assigns the finished event to the router, so the handler has
  emitted the started event only.
\<close>

datatype task_result = TaskSucceeded | TaskFailed string | TaskFault string

definition spec_handler ::
  "string \<Rightarrow> ('d \<Rightarrow> task_result) \<Rightarrow> Keptn \<Rightarrow> event \<Rightarrow> 'd \<Rightarrow> handler_run" where
  "spec_handler taskName task myKeptn envelope payload =
     (let session = \<lparr>ts_context = extract_context envelope\<rparr>;
          started = emitStarted session taskName
      in case task payload of
           TaskSucceeded \<Rightarrow>
             \<lparr>hr_sent = [started, emitFinished session taskName succeeded []],
              hr_outcome = HReturn None\<rparr>
         | TaskFailed msg \<Rightarrow> \<lparr>hr_sent = [started], hr_outcome = HReturn (Some msg)\<rparr>
         | TaskFault msg \<Rightarrow> \<lparr>hr_sent = [started], hr_outcome = HPanic msg\<rparr>)"

text \<open>
  Modelled from the spec: the two handlers of eventhandlers.go, registered for the tasks
  \<^verbatim>\<open>configure-monitoring\<close> and \<^verbatim>\<open>monaco\<close>; the library functions of \<open>X\<close> stay.
\<close>

definition with_spec_handlers ::
  "('c \<Rightarrow> task_result) \<Rightarrow> (MonacoStartedEventData \<Rightarrow> task_result) \<Rightarrow> 'c externals \<Rightarrow> 'c externals" where
  "with_spec_handlers configureMonitoring monaco X =
     X\<lparr>HandleConfigureMonitoringTriggeredEvent :=
         spec_handler ConfigureMonitoringTaskName configureMonitoring,
       HandleMonacoTriggeredEvent := spec_handler MonacoEvent monaco\<rparr>"

subsection \<open>The lines logged on the way to a handler\<close>

text \<open>
  The three lines \<^verbatim>\<open>processKeptnCloudEvent\<close> has logged when it calls a handler: the
  two of lines 61 and 67 and the line of the \<^verbatim>\<open>case\<close> taken.
\<close>

definition handler_log :: "event \<Rightarrow> Keptn \<Rightarrow> string \<Rightarrow> log_line list" where
  "handler_log event k line =
     [LogInfo (NewLogger (fst (ExtensionAs event ''shkeptncontext'' [])) (ev_id event) ServiceName)
        ''Initializing Keptn Handler'',
      LogInfo (NewLogger (fst (ExtensionAs event ''shkeptncontext'' [])) (ev_id event) ServiceName)
        (''gotEvent('' @ ev_type event @ ''): '' @ KeptnContext k @ '' - '' @ ev_id event),
      LogInfo (NewLogger (fst (ExtensionAs event ''shkeptncontext'' [])) (ev_id event) ServiceName)
        line]"

subsection \<open>Sample inputs\<close>

text \<open>
  Concrete stand-ins for the library at the inputs used below. \<open>newKeptn_sample\<close>
  builds a handle when the payload starts like a JSON object and fails otherwise; the two
  decoders know one payload each and fail on every other; \<open>decimal\<close> reads a decimal
  numeral.
\<close>

definition newKeptn_sample :: "event \<Rightarrow> KeptnOpts \<Rightarrow> Keptn option \<times> string option" where
  "newKeptn_sample e opts =
     (case ev_data e of
        [] \<Rightarrow> (None, Some ''unexpected end of JSON input'')
      | c # _ \<Rightarrow>
          if c = CHR ''{''
          then (Some \<lparr>KeptnContext = fst (ExtensionAs e ''shkeptncontext'' [])\<rparr>, None)
          else (None, Some ''json: cannot unmarshal into Go value of type v0_2_0.EventData''))"

definition zeroEventData :: EventData where
  "zeroEventData = \<lparr>Project = [], Stage = [], Service = [], Labels = [], Status = [],
     Result = [], Message = []\<rparr>"

definition dataAs_monaco_sample :: "event \<Rightarrow> string + MonacoStartedEventData" where
  "dataAs_monaco_sample e =
     (if ev_data e = ''{\"project\":\"p1\"}''
      then Inr \<lparr>EventData = zeroEventData\<lparr>Project := ''p1''\<rparr>\<rparr>
      else Inl ''json: cannot unmarshal'')"

definition dataAs_cm_sample :: "event \<Rightarrow> string + string" where
  "dataAs_cm_sample e =
     (if ev_data e = ''{\"configureMonitoring\":{\"type\":\"dynatrace\"}}''
      then Inr ''dynatrace''
      else Inl ''json: cannot unmarshal string into Go struct field configureMonitoring'')"

definition sample_externals ::
  "(Keptn \<Rightarrow> event \<Rightarrow> string \<Rightarrow> handler_run) \<Rightarrow>
   (Keptn \<Rightarrow> event \<Rightarrow> MonacoStartedEventData \<Rightarrow> handler_run) \<Rightarrow> string externals" where
  "sample_externals hc hm =
     \<lparr>NewKeptn = newKeptn_sample,
      DataAs_ConfigureMonitoring = dataAs_cm_sample,
      DataAs_Monaco = dataAs_monaco_sample,
      HandleConfigureMonitoringTriggeredEvent = hc,
      HandleMonacoTriggeredEvent = hm\<rparr>"

text \<open>A handler that sends the given events and ends the given way, whatever it is called with.\<close>

definition handler_stub ::
  "outbound list \<Rightarrow> handler_outcome \<Rightarrow> Keptn \<Rightarrow> event \<Rightarrow> 'd \<Rightarrow> handler_run" where
  "handler_stub obs out k e d = \<lparr>hr_sent = obs, hr_outcome = out\<rparr>"

definition quiet_externals :: "string externals" where
  "quiet_externals =
     sample_externals (handler_stub [] (HReturn None)) (handler_stub [] (HReturn None))"

definition monaco_triggered :: event where
  "monaco_triggered =
     \<lparr>ev_type = ''sh.keptn.event.monaco.triggered'', ev_id = ''e-1'',
      ev_source = ''shipyard-controller'',
      ev_extensions = [(''shkeptncontext'', ''ctx-42'')],
      ev_data = ''{\"project\":\"p1\"}''\<rparr>"

definition monaco_finished :: outbound where
  "monaco_finished =
     \<lparr>ob_type = ''sh.keptn.event.monaco.finished'', ob_source = ''monaco-service'',
      ob_triggeredid = ''e-1'', ob_shkeptncontext = ''ctx-42'', ob_status = Some succeeded,
      ob_message = []\<rparr>"

definition unowned_undecodable :: event where
  "unowned_undecodable =
     \<lparr>ev_type = ''sh.keptn.event.deployment.triggered'', ev_id = ''e-2'',
      ev_source = ''shipyard-controller'',
      ev_extensions = [(''shkeptncontext'', ''ctx-43'')],
      ev_data = ''[1,2,3]''\<rparr>"

definition unowned_decodable :: event where
  "unowned_decodable =
     \<lparr>ev_type = ''sh.keptn.event.deployment.triggered'', ev_id = ''e-3'',
      ev_source = ''shipyard-controller'',
      ev_extensions = [],
      ev_data = ''{\"project\":\"p1\"}''\<rparr>"

definition configure_monitoring_mismatch :: event where
  "configure_monitoring_mismatch =
     \<lparr>ev_type = ''sh.keptn.event.configure-monitoring.triggered'', ev_id = ''e-4'',
      ev_source = ''shipyard-controller'',
      ev_extensions = [(''shkeptncontext'', ''ctx-44'')],
      ev_data = ''{\"configureMonitoring\":\"dynatrace\"}''\<rparr>"

definition configure_monitoring_ok :: event where
  "configure_monitoring_ok =
     \<lparr>ev_type = ''sh.keptn.event.configure-monitoring.triggered'', ev_id = ''e-5'',
      ev_source = ''shipyard-controller'',
      ev_extensions = [(''shkeptncontext'', ''ctx-45'')],
      ev_data = ''{\"configureMonitoring\":{\"type\":\"dynatrace\"}}''\<rparr>"

definition decimal :: "string \<Rightarrow> int option" where
  "decimal s =
     (if s \<noteq> [] \<and> list_all (\<lambda>c. 48 \<le> (of_char c :: nat) \<and> (of_char c :: nat) \<le> 57) s
      then Some (foldl (\<lambda>n c. 10 * n + (int (of_char c) - 48)) 0 s)
      else None)"

section \<open>Properties\<close>

subsection \<open>Unfolding and the path to a handler\<close>

lemmas sample_defs =
  sample_externals_def quiet_externals_def newKeptn_sample_def dataAs_monaco_sample_def
  dataAs_cm_sample_def handler_stub_def monaco_triggered_def unowned_undecodable_def
  unowned_decodable_def configure_monitoring_mismatch_def configure_monitoring_ok_def
  zeroEventData_def

lemmas process_defs =
  processKeptnCloudEvent_def parseKeptnCloudEventPayload_def return_handler_def leave_def
  ExtensionAs_def NewLogger_def GetTriggeredEventType_def MonacoEvent_def
  ConfigureMonitoringTaskName_def ServiceName_def Let_def

lemma registered_configure_monitoring:
  assumes "NewKeptn X event opts = (Some k, None)"
    and "ev_type event = GetTriggeredEventType ConfigureMonitoringTaskName"
    and "DataAs_ConfigureMonitoring X event = Inr d"
  shows "processKeptnCloudEvent X opts event =
     return_handler Line139
       (handler_log event k ''Processing configure-monitoring.Triggered Event'')
       (ConfigureMonitoringCall k event d) (HandleConfigureMonitoringTriggeredEvent X k event d)"
  using assms
  by (simp add: processKeptnCloudEvent_def parseKeptnCloudEventPayload_def handler_log_def Let_def
      split: prod.splits)

lemma registered_monaco:
  assumes "NewKeptn X event opts = (Some k, None)"
    and "ev_type event = GetTriggeredEventType MonacoEvent"
    and "DataAs_Monaco X event = Inr d"
  shows "processKeptnCloudEvent X opts event =
     return_handler Line151
       (handler_log event k ''Processing sh.keptn.event.monaco.triggered Event'')
       (MonacoCall k event d) (HandleMonacoTriggeredEvent X k event d)"
  using assms
  by (simp add: processKeptnCloudEvent_def parseKeptnCloudEventPayload_def handler_log_def Let_def
      GetTriggeredEventType_def MonacoEvent_def ConfigureMonitoringTaskName_def
      split: prod.splits)

text \<open>
  When the payload of a registered type does not decode, the process ends with exit status
  1 before any handler runs, whatever the library and the handlers are.
\<close>

lemma decode_failure_exits:
  assumes "NewKeptn X event opts = (Some k, None)"
    and "ev_type event = GetTriggeredEventType ConfigureMonitoringTaskName
           \<and> DataAs_ConfigureMonitoring X event = Inl err
         \<or> ev_type event = GetTriggeredEventType MonacoEvent
           \<and> DataAs_Monaco X event = Inl err"
  shows "run_outcome (processKeptnCloudEvent X opts event) = Exited 1
     \<and> run_invoked (processKeptnCloudEvent X opts event) = []
     \<and> run_sent (processKeptnCloudEvent X opts event) = []
     \<and> last (run_log (processKeptnCloudEvent X opts event)) = LogFatal (''Got Data Error: '' @ err)"
  using assms
  by (auto simp add: processKeptnCloudEvent_def parseKeptnCloudEventPayload_def leave_def Let_def
      GetTriggeredEventType_def MonacoEvent_def ConfigureMonitoringTaskName_def
      split: prod.splits)

lemma decimal_8080: "decimal ''8080'' = Some 8080"
  by (simp add: decimal_def)

subsection \<open>Finished events and handler failures\<close>

text \<open>
  C1, as amended. For a triggered envelope of a registered type that is accepted for
  processing (the Keptn handle is built and the payload decodes), the handler of that type
  is invoked exactly once, with the handle, the envelope and the decoded payload, and the
  events sent for the envelope are exactly the events that invocation sends, however the
  handler ends. \<^verbatim>\<open>processKeptnCloudEvent\<close> sends no event of its own, so the number of
  finished events correlated to the trigger is the number the handler sends.
\<close>

theorem events_sent_are_the_handlers:
  assumes "NewKeptn X event opts = (Some k, None)"
  shows "(ev_type event = GetTriggeredEventType ConfigureMonitoringTaskName \<longrightarrow>
            (\<forall>d. DataAs_ConfigureMonitoring X event = Inr d \<longrightarrow>
               run_invoked (processKeptnCloudEvent X opts event) = [ConfigureMonitoringCall k event d]
             \<and> run_sent (processKeptnCloudEvent X opts event)
                 = hr_sent (HandleConfigureMonitoringTriggeredEvent X k event d)
             \<and> count_finished event ConfigureMonitoringTaskName
                   (run_sent (processKeptnCloudEvent X opts event))
                 = count_finished event ConfigureMonitoringTaskName
                     (hr_sent (HandleConfigureMonitoringTriggeredEvent X k event d))))
       \<and> (ev_type event = GetTriggeredEventType MonacoEvent \<longrightarrow>
            (\<forall>d. DataAs_Monaco X event = Inr d \<longrightarrow>
               run_invoked (processKeptnCloudEvent X opts event) = [MonacoCall k event d]
             \<and> run_sent (processKeptnCloudEvent X opts event)
                 = hr_sent (HandleMonacoTriggeredEvent X k event d)
             \<and> count_finished event MonacoEvent (run_sent (processKeptnCloudEvent X opts event))
                 = count_finished event MonacoEvent (hr_sent (HandleMonacoTriggeredEvent X k event d))))"
proof (intro conjI impI allI)
  fix d
  assume "ev_type event = GetTriggeredEventType ConfigureMonitoringTaskName"
    and "DataAs_ConfigureMonitoring X event = Inr d"
  with assms have r: "processKeptnCloudEvent X opts event =
      return_handler Line139
       (handler_log event k ''Processing configure-monitoring.Triggered Event'')
       (ConfigureMonitoringCall k event d) (HandleConfigureMonitoringTriggeredEvent X k event d)"
    by (rule registered_configure_monitoring)
  show "run_invoked (processKeptnCloudEvent X opts event) = [ConfigureMonitoringCall k event d]"
    by (simp add: r return_handler_def)
  show s: "run_sent (processKeptnCloudEvent X opts event)
      = hr_sent (HandleConfigureMonitoringTriggeredEvent X k event d)"
    by (simp add: r return_handler_def)
  show "count_finished event ConfigureMonitoringTaskName
          (run_sent (processKeptnCloudEvent X opts event))
        = count_finished event ConfigureMonitoringTaskName
            (hr_sent (HandleConfigureMonitoringTriggeredEvent X k event d))"
    by (simp only: s)
next
  fix d
  assume "ev_type event = GetTriggeredEventType MonacoEvent"
    and "DataAs_Monaco X event = Inr d"
  with assms have r: "processKeptnCloudEvent X opts event =
      return_handler Line151
       (handler_log event k ''Processing sh.keptn.event.monaco.triggered Event'')
       (MonacoCall k event d) (HandleMonacoTriggeredEvent X k event d)"
    by (rule registered_monaco)
  show "run_invoked (processKeptnCloudEvent X opts event) = [MonacoCall k event d]"
    by (simp add: r return_handler_def)
  show s: "run_sent (processKeptnCloudEvent X opts event)
      = hr_sent (HandleMonacoTriggeredEvent X k event d)"
    by (simp add: r return_handler_def)
  show "count_finished event MonacoEvent (run_sent (processKeptnCloudEvent X opts event))
        = count_finished event MonacoEvent (hr_sent (HandleMonacoTriggeredEvent X k event d))"
    by (simp only: s)
qed

text \<open>
  The theorem at a monaco event whose handler sends one finished event and returns
  \<^verbatim>\<open>nil\<close>: one invocation, one finished event.
\<close>

theorem events_sent_are_the_handlers_witness:
  "NewKeptn (sample_externals (handler_stub [] (HReturn None))
       (handler_stub [monaco_finished] (HReturn None)))
     monaco_triggered keptnOptions = (Some \<lparr>KeptnContext = ''ctx-42''\<rparr>, None)
   \<and> ev_type monaco_triggered = GetTriggeredEventType MonacoEvent
   \<and> run_invoked (processKeptnCloudEvent
        (sample_externals (handler_stub [] (HReturn None))
          (handler_stub [monaco_finished] (HReturn None)))
        keptnOptions monaco_triggered)
      = [MonacoCall \<lparr>KeptnContext = ''ctx-42''\<rparr> monaco_triggered
           \<lparr>EventData = zeroEventData\<lparr>Project := ''p1''\<rparr>\<rparr>]
   \<and> count_finished monaco_triggered MonacoEvent
        (run_sent (processKeptnCloudEvent
          (sample_externals (handler_stub [] (HReturn None))
            (handler_stub [monaco_finished] (HReturn None)))
          keptnOptions monaco_triggered)) = 1"
  using events_sent_are_the_handlers [of
      "sample_externals (handler_stub [] (HReturn None))
         (handler_stub [monaco_finished] (HReturn None))"
      monaco_triggered keptnOptions "\<lparr>KeptnContext = ''ctx-42''\<rparr>"]
  by (simp add: sample_defs ExtensionAs_def GetTriggeredEventType_def MonacoEvent_def
      ConfigureMonitoringTaskName_def count_finished_def finished_for_def monaco_finished_def
      GetFinishedEventType_def)

text \<open>
  Against C1 as stated: a monaco event with a registered handler is accepted, the handler
  is invoked and faults before it has sent anything. The fault leaves
  \<^verbatim>\<open>processKeptnCloudEvent\<close> as a panic and no finished event is sent.
\<close>

theorem faulting_handler_no_finished_event:
  "run_invoked (processKeptnCloudEvent
       (sample_externals (handler_stub [] (HPanic ''boom'')) (handler_stub [] (HPanic ''boom'')))
       keptnOptions monaco_triggered)
     = [MonacoCall \<lparr>KeptnContext = ''ctx-42''\<rparr> monaco_triggered
          \<lparr>EventData = zeroEventData\<lparr>Project := ''p1''\<rparr>\<rparr>]
   \<and> run_outcome (processKeptnCloudEvent
       (sample_externals (handler_stub [] (HPanic ''boom'')) (handler_stub [] (HPanic ''boom'')))
       keptnOptions monaco_triggered) = Panicked ''boom''
   \<and> run_sent (processKeptnCloudEvent
       (sample_externals (handler_stub [] (HPanic ''boom'')) (handler_stub [] (HPanic ''boom'')))
       keptnOptions monaco_triggered) = []
   \<and> count_finished monaco_triggered MonacoEvent
       (run_sent (processKeptnCloudEvent
          (sample_externals (handler_stub [] (HPanic ''boom'')) (handler_stub [] (HPanic ''boom'')))
          keptnOptions monaco_triggered)) \<noteq> 1"
  by (simp add: process_defs sample_defs count_finished_def)

text \<open>
  C2, as amended. For a triggered envelope dispatched to a registered handler, the result
  of the handler is the result of \<^verbatim>\<open>processKeptnCloudEvent\<close>: an error the handler
  returns is returned unchanged to the caller, a panic of the handler leaves as a panic.
  \<^verbatim>\<open>processKeptnCloudEvent\<close> logs nothing after the line of the \<^verbatim>\<open>case\<close>, logs no
  error, and sends nothing besides what the handler sent.
\<close>

theorem handler_result_passes_through:
  assumes "NewKeptn X event opts = (Some k, None)"
  shows "(ev_type event = GetTriggeredEventType ConfigureMonitoringTaskName \<longrightarrow>
            (\<forall>d. DataAs_ConfigureMonitoring X event = Inr d \<longrightarrow>
               run_outcome (processKeptnCloudEvent X opts event)
                 = (case hr_outcome (HandleConfigureMonitoringTriggeredEvent X k event d) of
                      HReturn err \<Rightarrow> Returned Line139 err
                    | HPanic msg \<Rightarrow> Panicked msg)
             \<and> run_sent (processKeptnCloudEvent X opts event)
                 = hr_sent (HandleConfigureMonitoringTriggeredEvent X k event d)
             \<and> run_log (processKeptnCloudEvent X opts event)
                 = handler_log event k ''Processing configure-monitoring.Triggered Event''
             \<and> (\<forall>lg line. LogError lg line \<notin> set (run_log (processKeptnCloudEvent X opts event)))))
       \<and> (ev_type event = GetTriggeredEventType MonacoEvent \<longrightarrow>
            (\<forall>d. DataAs_Monaco X event = Inr d \<longrightarrow>
               run_outcome (processKeptnCloudEvent X opts event)
                 = (case hr_outcome (HandleMonacoTriggeredEvent X k event d) of
                      HReturn err \<Rightarrow> Returned Line151 err
                    | HPanic msg \<Rightarrow> Panicked msg)
             \<and> run_sent (processKeptnCloudEvent X opts event)
                 = hr_sent (HandleMonacoTriggeredEvent X k event d)
             \<and> run_log (processKeptnCloudEvent X opts event)
                 = handler_log event k ''Processing sh.keptn.event.monaco.triggered Event''
             \<and> (\<forall>lg line. LogError lg line \<notin> set (run_log (processKeptnCloudEvent X opts event)))))"
proof (intro conjI impI allI)
  fix d lg line
  assume "ev_type event = GetTriggeredEventType ConfigureMonitoringTaskName"
    and "DataAs_ConfigureMonitoring X event = Inr d"
  with assms have r: "processKeptnCloudEvent X opts event =
      return_handler Line139
       (handler_log event k ''Processing configure-monitoring.Triggered Event'')
       (ConfigureMonitoringCall k event d) (HandleConfigureMonitoringTriggeredEvent X k event d)"
    by (rule registered_configure_monitoring)
  show "run_outcome (processKeptnCloudEvent X opts event)
      = (case hr_outcome (HandleConfigureMonitoringTriggeredEvent X k event d) of
           HReturn err \<Rightarrow> Returned Line139 err | HPanic msg \<Rightarrow> Panicked msg)"
    by (simp add: r return_handler_def)
  show "run_sent (processKeptnCloudEvent X opts event)
      = hr_sent (HandleConfigureMonitoringTriggeredEvent X k event d)"
    by (simp add: r return_handler_def)
  show "run_log (processKeptnCloudEvent X opts event)
      = handler_log event k ''Processing configure-monitoring.Triggered Event''"
    by (simp add: r return_handler_def)
  show "LogError lg line \<notin> set (run_log (processKeptnCloudEvent X opts event))"
    by (simp add: r return_handler_def handler_log_def)
next
  fix d lg line
  assume "ev_type event = GetTriggeredEventType MonacoEvent"
    and "DataAs_Monaco X event = Inr d"
  with assms have r: "processKeptnCloudEvent X opts event =
      return_handler Line151
       (handler_log event k ''Processing sh.keptn.event.monaco.triggered Event'')
       (MonacoCall k event d) (HandleMonacoTriggeredEvent X k event d)"
    by (rule registered_monaco)
  show "run_outcome (processKeptnCloudEvent X opts event)
      = (case hr_outcome (HandleMonacoTriggeredEvent X k event d) of
           HReturn err \<Rightarrow> Returned Line151 err | HPanic msg \<Rightarrow> Panicked msg)"
    by (simp add: r return_handler_def)
  show "run_sent (processKeptnCloudEvent X opts event)
      = hr_sent (HandleMonacoTriggeredEvent X k event d)"
    by (simp add: r return_handler_def)
  show "run_log (processKeptnCloudEvent X opts event)
      = handler_log event k ''Processing sh.keptn.event.monaco.triggered Event''"
    by (simp add: r return_handler_def)
  show "LogError lg line \<notin> set (run_log (processKeptnCloudEvent X opts event))"
    by (simp add: r return_handler_def handler_log_def)
qed

text \<open>
  The theorem at a configure-monitoring event whose handler panics: the panic is the
  outcome of \<^verbatim>\<open>processKeptnCloudEvent\<close>.
\<close>

theorem handler_result_passes_through_witness:
  "NewKeptn (sample_externals (handler_stub [] (HPanic ''index out of range''))
        (handler_stub [] (HReturn None)))
      configure_monitoring_ok keptnOptions = (Some \<lparr>KeptnContext = ''ctx-45''\<rparr>, None)
   \<and> ev_type configure_monitoring_ok = GetTriggeredEventType ConfigureMonitoringTaskName
   \<and> DataAs_ConfigureMonitoring (sample_externals (handler_stub [] (HPanic ''index out of range''))
        (handler_stub [] (HReturn None))) configure_monitoring_ok = Inr ''dynatrace''
   \<and> run_outcome (processKeptnCloudEvent
        (sample_externals (handler_stub [] (HPanic ''index out of range''))
          (handler_stub [] (HReturn None)))
        keptnOptions configure_monitoring_ok) = Panicked ''index out of range''
   \<and> run_sent (processKeptnCloudEvent
        (sample_externals (handler_stub [] (HPanic ''index out of range''))
          (handler_stub [] (HReturn None)))
        keptnOptions configure_monitoring_ok) = []"
  using handler_result_passes_through [of
      "sample_externals (handler_stub [] (HPanic ''index out of range'')) (handler_stub [] (HReturn None))"
      configure_monitoring_ok keptnOptions "\<lparr>KeptnContext = ''ctx-45''\<rparr>"]
  by (simp add: sample_defs ExtensionAs_def GetTriggeredEventType_def
      ConfigureMonitoringTaskName_def MonacoEvent_def)

text \<open>
  Against C2 as stated: the monaco handler returns an error having sent nothing. The
  error is returned to the caller, nothing is sent (so no finished event with status
  \<open>errored\<close>), and the log holds the three informational lines only.
\<close>

theorem failing_handler_error_returned:
  "run_outcome (processKeptnCloudEvent
       (sample_externals (handler_stub [] (HReturn (Some ''monaco failed'')))
          (handler_stub [] (HReturn (Some ''monaco failed''))))
       keptnOptions monaco_triggered) = Returned Line151 (Some ''monaco failed'')
   \<and> run_sent (processKeptnCloudEvent
       (sample_externals (handler_stub [] (HReturn (Some ''monaco failed'')))
          (handler_stub [] (HReturn (Some ''monaco failed''))))
       keptnOptions monaco_triggered) = []
   \<and> run_log (processKeptnCloudEvent
       (sample_externals (handler_stub [] (HReturn (Some ''monaco failed'')))
          (handler_stub [] (HReturn (Some ''monaco failed''))))
       keptnOptions monaco_triggered)
     = [LogInfo \<lparr>lg_keptnContext = ''ctx-42'', lg_eventID = ''e-1'', lg_serviceName = ''monaco-service''\<rparr>
          ''Initializing Keptn Handler'',
        LogInfo \<lparr>lg_keptnContext = ''ctx-42'', lg_eventID = ''e-1'', lg_serviceName = ''monaco-service''\<rparr>
          ''gotEvent(sh.keptn.event.monaco.triggered): ctx-42 - e-1'',
        LogInfo \<lparr>lg_keptnContext = ''ctx-42'', lg_eventID = ''e-1'', lg_serviceName = ''monaco-service''\<rparr>
          ''Processing sh.keptn.event.monaco.triggered Event'']"
  by (simp add: process_defs sample_defs)

subsection \<open>A payload that does not decode\<close>

text \<open>
  C3. A configure-monitoring event whose payload does not decode into the structure of the
  handler: \<^verbatim>\<open>parseKeptnCloudEventPayload\<close> calls \<^verbatim>\<open>log.Fatalf\<close>, the process ends
  with exit status 1, no handler is invoked and nothing is sent. The claim asks for a local
  error and a process that goes on.
\<close>

theorem payload_mismatch_ends_process:
  "run_outcome (processKeptnCloudEvent (sample_externals hc hm) keptnOptions
       configure_monitoring_mismatch) = Exited 1
   \<and> run_invoked (processKeptnCloudEvent (sample_externals hc hm) keptnOptions
       configure_monitoring_mismatch) = []
   \<and> run_sent (processKeptnCloudEvent (sample_externals hc hm) keptnOptions
       configure_monitoring_mismatch) = []
   \<and> last (run_log (processKeptnCloudEvent (sample_externals hc hm) keptnOptions
       configure_monitoring_mismatch))
     = LogFatal ''Got Data Error: json: cannot unmarshal string into Go struct field configureMonitoring''"
  by (simp add: process_defs sample_defs)

subsection \<open>Event types without a handler\<close>

text \<open>
  C4, as amended. For an envelope whose type is neither of the two registered triggered
  types, no handler is invoked and nothing is sent. When the Keptn handle is built,
  \<^verbatim>\<open>processKeptnCloudEvent\<close> logs \<^verbatim>\<open>Unhandled Keptn Cloud Event\<close> with the type, at
  error level, and returns \<^verbatim>\<open>nil\<close>. When \<^verbatim>\<open>keptnv2.NewKeptn\<close> returns an error, which
  is tested before the type is looked at, it returns the error
  \<^verbatim>\<open>Could not create Keptn Handler\<close> to its caller.
\<close>

theorem unowned_type_not_dispatched:
  assumes "ev_type event \<noteq> GetTriggeredEventType ConfigureMonitoringTaskName"
    and "ev_type event \<noteq> GetTriggeredEventType MonacoEvent"
  shows "run_invoked (processKeptnCloudEvent X opts event) = []
     \<and> run_sent (processKeptnCloudEvent X opts event) = []
     \<and> (\<forall>k. NewKeptn X event opts = (Some k, None) \<longrightarrow>
           run_outcome (processKeptnCloudEvent X opts event) = Returned Line206 None
         \<and> last (run_log (processKeptnCloudEvent X opts event))
             = LogError (NewLogger (fst (ExtensionAs event ''shkeptncontext'' [])) (ev_id event)
                           ServiceName)
                 (''Unhandled Keptn Cloud Event: '' @ ev_type event))
     \<and> (\<forall>h e. NewKeptn X event opts = (h, Some e) \<longrightarrow>
           run_outcome (processKeptnCloudEvent X opts event)
             = Returned Line64 (Some (''Could not create Keptn Handler: '' @ e)))"
  using assms
  by (simp add: processKeptnCloudEvent_def leave_def Let_def
      split: prod.splits option.splits)

text \<open>
  The theorem at a deployment event with a payload the library reads: the handlers, which
  would panic, are not called, and \<^verbatim>\<open>nil\<close> is returned from line 206.
\<close>

theorem unowned_type_not_dispatched_witness:
  "ev_type unowned_decodable \<noteq> GetTriggeredEventType ConfigureMonitoringTaskName
   \<and> ev_type unowned_decodable \<noteq> GetTriggeredEventType MonacoEvent
   \<and> NewKeptn (sample_externals (handler_stub [] (HPanic ''never called''))
         (handler_stub [] (HPanic ''never called'')))
       unowned_decodable keptnOptions = (Some \<lparr>KeptnContext = []\<rparr>, None)
   \<and> run_invoked (processKeptnCloudEvent
        (sample_externals (handler_stub [] (HPanic ''never called''))
          (handler_stub [] (HPanic ''never called'')))
        keptnOptions unowned_decodable) = []
   \<and> run_outcome (processKeptnCloudEvent
        (sample_externals (handler_stub [] (HPanic ''never called''))
          (handler_stub [] (HPanic ''never called'')))
        keptnOptions unowned_decodable) = Returned Line206 None"
  using unowned_type_not_dispatched [of unowned_decodable
      "sample_externals (handler_stub [] (HPanic ''never called'')) (handler_stub [] (HPanic ''never called''))"
      keptnOptions]
  by (simp add: sample_defs ExtensionAs_def GetTriggeredEventType_def
      ConfigureMonitoringTaskName_def MonacoEvent_def)

text \<open>
  Against C4 as stated: a deployment event, a type without a handler, whose payload is a
  JSON array. \<^verbatim>\<open>NewKeptn\<close> fails on it and \<^verbatim>\<open>processKeptnCloudEvent\<close> returns an
  error to the transport layer.
\<close>

theorem unowned_type_error_returned:
  "ev_type unowned_undecodable \<noteq> GetTriggeredEventType ConfigureMonitoringTaskName
   \<and> ev_type unowned_undecodable \<noteq> GetTriggeredEventType MonacoEvent
   \<and> run_outcome (processKeptnCloudEvent
         (sample_externals (handler_stub [] (HReturn None)) (handler_stub [] (HReturn None)))
         keptnOptions unowned_undecodable)
     = Returned Line64 (Some
         ''Could not create Keptn Handler: json: cannot unmarshal into Go value of type v0_2_0.EventData'')"
  by (simp add: process_defs sample_defs)

subsection \<open>The correlation id\<close>

lemma spec_handler_context:
  "ob \<in> set (hr_sent (spec_handler taskName task k event d)) \<Longrightarrow>
     ob_shkeptncontext ob = fst (ExtensionAs event ''shkeptncontext'' [])"
  by (auto simp add: spec_handler_def Let_def emitStarted_def emitFinished_def extract_context_def
      split: task_result.splits)

lemma run_sent_spec_handlers:
  "ob \<in> set (run_sent (processKeptnCloudEvent (with_spec_handlers cm monaco X) opts event)) \<Longrightarrow>
     ob_shkeptncontext ob = fst (ExtensionAs event ''shkeptncontext'' [])"
  by (auto simp add: processKeptnCloudEvent_def with_spec_handlers_def leave_def return_handler_def
      Let_def dest: spec_handler_context
      split: prod.splits option.splits fatal.splits if_splits)

text \<open>
  C5. For an envelope that carries the correlation id \<open>c\<close> in the extension
  \<^verbatim>\<open>shkeptncontext\<close>, the started event and the finished event of its session carry
  \<open>c\<close> unchanged, and so does every event sent while \<^verbatim>\<open>processKeptnCloudEvent\<close>
  handles the envelope with the handlers of the specification.
\<close>

theorem correlation_id_propagated:
  assumes "map_of (ev_extensions event) ''shkeptncontext'' = Some c"
  shows "ob_shkeptncontext (emitStarted \<lparr>ts_context = extract_context event\<rparr> task) = c
     \<and> ob_shkeptncontext (emitFinished \<lparr>ts_context = extract_context event\<rparr> task st msg) = c
     \<and> (\<forall>ob \<in> set (run_sent (processKeptnCloudEvent (with_spec_handlers cm monaco X) opts event)).
           ob_shkeptncontext ob = c)"
proof (intro conjI ballI)
  from assms have c: "fst (ExtensionAs event ''shkeptncontext'' []) = c"
    by (simp add: ExtensionAs_def)
  show "ob_shkeptncontext (emitStarted \<lparr>ts_context = extract_context event\<rparr> task) = c"
    by (simp add: emitStarted_def extract_context_def c)
  show "ob_shkeptncontext (emitFinished \<lparr>ts_context = extract_context event\<rparr> task st msg) = c"
    by (simp add: emitFinished_def extract_context_def c)
  fix ob
  assume "ob \<in> set (run_sent (processKeptnCloudEvent (with_spec_handlers cm monaco X) opts event))"
  then show "ob_shkeptncontext ob = c"
    using c by (simp add: run_sent_spec_handlers)
qed

text \<open>
  The theorem at the monaco event with correlation id \<^verbatim>\<open>ctx-42\<close> and a task that
  succeeds: a started and a finished event are sent, both with \<^verbatim>\<open>ctx-42\<close>.
\<close>

theorem correlation_id_propagated_witness:
  "map_of (ev_extensions monaco_triggered) ''shkeptncontext'' = Some ''ctx-42''
   \<and> map ob_type (run_sent (processKeptnCloudEvent
        (with_spec_handlers (\<lambda>d. TaskSucceeded) (\<lambda>d. TaskSucceeded) quiet_externals)
        keptnOptions monaco_triggered))
      = [''sh.keptn.event.monaco.started'', ''sh.keptn.event.monaco.finished'']
   \<and> map ob_shkeptncontext (run_sent (processKeptnCloudEvent
        (with_spec_handlers (\<lambda>d. TaskSucceeded) (\<lambda>d. TaskSucceeded) quiet_externals)
        keptnOptions monaco_triggered))
      = [''ctx-42'', ''ctx-42'']"
  using correlation_id_propagated [of monaco_triggered "''ctx-42''" MonacoEvent succeeded "[]"
      "\<lambda>d. TaskSucceeded" "\<lambda>d. TaskSucceeded" quiet_externals keptnOptions]
  by (simp add: process_defs sample_defs with_spec_handlers_def
      spec_handler_def emitStarted_def emitFinished_def extract_context_def
      GetStartedEventType_def GetFinishedEventType_def)

text \<open>
  C7. The correlation context is read without failing: the correlation id is the value of
  the extension \<^verbatim>\<open>shkeptncontext\<close>, or the empty string when the extension is absent, and
  the first line of every run is logged with the logger built from it. When the extension
  is absent the logger has the empty correlation id, the id of the event and the service
  name, and once \<^verbatim>\<open>keptnv2.NewKeptn\<close> has built the handle the run goes on to the
  \<^verbatim>\<open>gotEvent\<close> line and to the type switch: it does not return at line 64 or 71.
\<close>

theorem correlation_extraction_total:
  "fst (ExtensionAs event ''shkeptncontext'' [])
     = (case map_of (ev_extensions event) ''shkeptncontext'' of None \<Rightarrow> [] | Some v \<Rightarrow> v)
   \<and> take 1 (run_log (processKeptnCloudEvent X opts event))
     = [LogInfo (NewLogger (fst (ExtensionAs event ''shkeptncontext'' [])) (ev_id event) ServiceName)
          ''Initializing Keptn Handler'']
   \<and> (map_of (ev_extensions event) ''shkeptncontext'' = None \<longrightarrow>
        NewLogger (fst (ExtensionAs event ''shkeptncontext'' [])) (ev_id event) ServiceName
          = \<lparr>lg_keptnContext = [], lg_eventID = ev_id event, lg_serviceName = ''monaco-service''\<rparr>
      \<and> (\<forall>k. NewKeptn X event opts = (Some k, None) \<longrightarrow>
            take 2 (run_log (processKeptnCloudEvent X opts event))
              = [LogInfo (NewLogger [] (ev_id event) ServiceName) ''Initializing Keptn Handler'',
                 LogInfo (NewLogger [] (ev_id event) ServiceName)
                   (''gotEvent('' @ ev_type event @ ''): '' @ KeptnContext k @ '' - '' @ ev_id event)]
          \<and> (\<forall>e. run_outcome (processKeptnCloudEvent X opts event) \<noteq> Returned Line64 e)
          \<and> (\<forall>e. run_outcome (processKeptnCloudEvent X opts event) \<noteq> Returned Line71 e)))"
proof (intro conjI impI allI)
  show "fst (ExtensionAs event ''shkeptncontext'' [])
     = (case map_of (ev_extensions event) ''shkeptncontext'' of None \<Rightarrow> [] | Some v \<Rightarrow> v)"
    by (simp add: ExtensionAs_def split: option.splits)
  show "take 1 (run_log (processKeptnCloudEvent X opts event))
     = [LogInfo (NewLogger (fst (ExtensionAs event ''shkeptncontext'' [])) (ev_id event) ServiceName)
          ''Initializing Keptn Handler'']"
    by (simp add: processKeptnCloudEvent_def leave_def return_handler_def Let_def
        split: prod.splits option.splits fatal.splits)
next
  assume "map_of (ev_extensions event) ''shkeptncontext'' = None"
  then show "NewLogger (fst (ExtensionAs event ''shkeptncontext'' [])) (ev_id event) ServiceName
          = \<lparr>lg_keptnContext = [], lg_eventID = ev_id event, lg_serviceName = ''monaco-service''\<rparr>"
    by (simp add: ExtensionAs_def NewLogger_def ServiceName_def)
next
  fix k
  assume a: "map_of (ev_extensions event) ''shkeptncontext'' = None"
    and n: "NewKeptn X event opts = (Some k, None)"
  from a have c: "ExtensionAs event ''shkeptncontext'' []
      = ([], Some (''extension '' @ ''shkeptncontext'' @ '' does not exist''))"
    by (simp add: ExtensionAs_def)
  show "take 2 (run_log (processKeptnCloudEvent X opts event))
      = [LogInfo (NewLogger [] (ev_id event) ServiceName) ''Initializing Keptn Handler'',
         LogInfo (NewLogger [] (ev_id event) ServiceName)
           (''gotEvent('' @ ev_type event @ ''): '' @ KeptnContext k @ '' - '' @ ev_id event)]"
    using n c
    by (simp add: processKeptnCloudEvent_def leave_def return_handler_def Let_def
        split: prod.splits fatal.splits)
  fix e
  show "run_outcome (processKeptnCloudEvent X opts event) \<noteq> Returned Line64 e"
    using n
    by (simp add: processKeptnCloudEvent_def leave_def return_handler_def Let_def
        split: prod.splits fatal.splits handler_outcome.splits)
  show "run_outcome (processKeptnCloudEvent X opts event) \<noteq> Returned Line71 e"
    using n
    by (simp add: processKeptnCloudEvent_def leave_def return_handler_def Let_def
        split: prod.splits fatal.splits handler_outcome.splits)
qed

text \<open>
  The theorem at a deployment event without extensions: both lines are logged with the
  empty correlation id and the run ends at line 206.
\<close>

theorem correlation_extraction_total_witness:
  "map_of (ev_extensions unowned_decodable) ''shkeptncontext'' = None
   \<and> NewKeptn quiet_externals unowned_decodable keptnOptions = (Some \<lparr>KeptnContext = []\<rparr>, None)
   \<and> take 2 (run_log (processKeptnCloudEvent quiet_externals keptnOptions unowned_decodable))
      = [LogInfo \<lparr>lg_keptnContext = [], lg_eventID = ''e-3'', lg_serviceName = ''monaco-service''\<rparr>
           ''Initializing Keptn Handler'',
         LogInfo \<lparr>lg_keptnContext = [], lg_eventID = ''e-3'', lg_serviceName = ''monaco-service''\<rparr>
           ''gotEvent(sh.keptn.event.deployment.triggered):  - e-3'']
   \<and> run_outcome (processKeptnCloudEvent quiet_externals keptnOptions unowned_decodable)
      = Returned Line206 None"
  using correlation_extraction_total [of unowned_decodable quiet_externals keptnOptions]
  by (simp add: process_defs sample_defs)

subsection \<open>The monaco scenario\<close>

text \<open>
  C6. An envelope of type \<^verbatim>\<open>sh.keptn.event.monaco.triggered\<close> whose payload decodes, with
  the monaco handler registered: \<^verbatim>\<open>processKeptnCloudEvent\<close> invokes the monaco handler
  exactly once, with the decoded payload; when the task succeeds, exactly one event of type
  \<^verbatim>\<open>sh.keptn.event.monaco.finished\<close> is sent, it has status \<open>succeeded\<close> and is
  correlated to the trigger, and \<^verbatim>\<open>nil\<close> is returned.
\<close>

theorem monaco_scenario:
  assumes "ev_type event = ''sh.keptn.event.monaco.triggered''"
    and "NewKeptn X event opts = (Some k, None)"
    and "DataAs_Monaco X event = Inr payload"
    and "monaco payload = TaskSucceeded"
  shows "run_invoked (processKeptnCloudEvent (with_spec_handlers cm monaco X) opts event)
           = [MonacoCall k event payload]
     \<and> filter (\<lambda>ob. ob_type ob = ''sh.keptn.event.monaco.finished'')
          (run_sent (processKeptnCloudEvent (with_spec_handlers cm monaco X) opts event))
           = [emitFinished \<lparr>ts_context = extract_context event\<rparr> MonacoEvent succeeded []]
     \<and> ob_status (emitFinished \<lparr>ts_context = extract_context event\<rparr> MonacoEvent succeeded [])
           = Some succeeded
     \<and> count_finished event MonacoEvent
          (run_sent (processKeptnCloudEvent (with_spec_handlers cm monaco X) opts event)) = 1
     \<and> run_outcome (processKeptnCloudEvent (with_spec_handlers cm monaco X) opts event)
           = Returned Line151 None"
proof -
  let ?X = "with_spec_handlers cm monaco X"
  have 1: "NewKeptn ?X event opts = (Some k, None)"
    using assms(2) by (simp add: with_spec_handlers_def)
  have 2: "ev_type event = GetTriggeredEventType MonacoEvent"
    using assms(1) by (simp add: GetTriggeredEventType_def MonacoEvent_def)
  have 3: "DataAs_Monaco ?X event = Inr payload"
    using assms(3) by (simp add: with_spec_handlers_def)
  have h: "HandleMonacoTriggeredEvent ?X k event payload =
      \<lparr>hr_sent = [emitStarted \<lparr>ts_context = extract_context event\<rparr> MonacoEvent,
                  emitFinished \<lparr>ts_context = extract_context event\<rparr> MonacoEvent succeeded []],
       hr_outcome = HReturn None\<rparr>"
    using assms(4) by (simp add: with_spec_handlers_def spec_handler_def Let_def)
  note r = registered_monaco [OF 1 2 3]
  show ?thesis
    by (simp add: r h return_handler_def count_finished_def finished_for_def emitStarted_def
        emitFinished_def extract_context_def GetStartedEventType_def GetFinishedEventType_def
        MonacoEvent_def)
qed

text \<open>
  The theorem at the scenario of the specification: the payload \<^verbatim>\<open>{"project":"p1"}\<close>,
  decoded to the project \<^verbatim>\<open>p1\<close>, and a task that succeeds for that project.
\<close>

theorem monaco_scenario_witness:
  "ev_type monaco_triggered = ''sh.keptn.event.monaco.triggered''
   \<and> ev_data monaco_triggered = ''{\"project\":\"p1\"}''
   \<and> NewKeptn quiet_externals monaco_triggered keptnOptions = (Some \<lparr>KeptnContext = ''ctx-42''\<rparr>, None)
   \<and> DataAs_Monaco quiet_externals monaco_triggered
        = Inr \<lparr>EventData = zeroEventData\<lparr>Project := ''p1''\<rparr>\<rparr>
   \<and> run_invoked (processKeptnCloudEvent
        (with_spec_handlers (\<lambda>d. TaskFailed ''unused'')
           (\<lambda>d. if Project (EventData d) = ''p1'' then TaskSucceeded else TaskFailed ''unknown project'')
           quiet_externals)
        keptnOptions monaco_triggered)
      = [MonacoCall \<lparr>KeptnContext = ''ctx-42''\<rparr> monaco_triggered
           \<lparr>EventData = zeroEventData\<lparr>Project := ''p1''\<rparr>\<rparr>]
   \<and> map ob_status (filter (\<lambda>ob. ob_type ob = ''sh.keptn.event.monaco.finished'')
        (run_sent (processKeptnCloudEvent
          (with_spec_handlers (\<lambda>d. TaskFailed ''unused'')
             (\<lambda>d. if Project (EventData d) = ''p1'' then TaskSucceeded else TaskFailed ''unknown project'')
             quiet_externals)
          keptnOptions monaco_triggered)))
      = [Some succeeded]"
  using monaco_scenario [of monaco_triggered quiet_externals keptnOptions
      "\<lparr>KeptnContext = ''ctx-42''\<rparr>" "\<lparr>EventData = zeroEventData\<lparr>Project := ''p1''\<rparr>\<rparr>"
      "\<lambda>d. if Project (EventData d) = ''p1'' then TaskSucceeded else TaskFailed ''unknown project''"
      "\<lambda>d. TaskFailed ''unused''"]
  by (simp add: sample_defs ExtensionAs_def emitFinished_def)

subsection \<open>Start-up configuration\<close>

text \<open>
  C9. With no environment variable set the configuration is port 8080, path \<^verbatim>\<open>/\<close>, mode
  \<^verbatim>\<open>local\<close> and an empty configuration-service URL, and start-up selects the local file
  system and listens on that path and port. Each default also holds alone, when only its
  own variable is unset. The local file system is selected exactly when the mode is
  \<^verbatim>\<open>local\<close>, and the URL of the configuration service is the configured one. The
  library's reading of the port text is assumed to read \<^verbatim>\<open>8080\<close> as 8080.
\<close>

theorem configuration_defaults:
  assumes "ParseInt ''8080'' = Some 8080"
  shows "envconfig_Process ParseInt []
           = Inr \<lparr>Port = 8080, Path = ''/'', Env = ''local'', ConfigurationServiceUrl = []\<rparr>
     \<and> main_startup ParseInt []
           = Inr (\<lparr>UseLocalFileSystem = True, ConfigurationServiceURL = []\<rparr>,
                  \<lparr>ln_path = ''/'', ln_port = 8080\<rparr>)
     \<and> (\<forall>env. envconfig_Process ParseInt environ = Inr env \<longrightarrow>
           (map_of environ ''RCV_PORT'' = None \<longrightarrow> ln_port (main_listener env) = 8080)
         \<and> (map_of environ ''RCV_PATH'' = None \<longrightarrow> ln_path (main_listener env) = ''/'')
         \<and> (map_of environ ''ENV'' = None \<longrightarrow>
               UseLocalFileSystem (main_keptnOptions env keptnOptions))
         \<and> ConfigurationServiceURL (main_keptnOptions env keptnOptions)
               = (case map_of environ ''CONFIGURATION_SERVICE'' of None \<Rightarrow> [] | Some url \<Rightarrow> url))
     \<and> UseLocalFileSystem (main_keptnOptions cfg keptnOptions) = (Env cfg = ''local'')
     \<and> ConfigurationServiceURL (main_keptnOptions cfg keptnOptions) = ConfigurationServiceUrl cfg"
  using assms
  by (auto simp add: envconfig_Process_def main_startup_def main_keptnOptions_def
      main_listener_def keptnOptions_def field_value_def Let_def split: option.splits)

text \<open>
  The theorem with the decimal reading of the port, once with an empty environment and
  once with the mode \<^verbatim>\<open>production\<close> and a configuration service: port and path keep
  their defaults and the local file system is not selected.
\<close>

theorem configuration_defaults_witness:
  "decimal ''8080'' = Some 8080
   \<and> envconfig_Process decimal []
        = Inr \<lparr>Port = 8080, Path = ''/'', Env = ''local'', ConfigurationServiceUrl = []\<rparr>
   \<and> main_startup decimal [(''ENV'', ''production''),
          (''CONFIGURATION_SERVICE'', ''http://configuration-service:8080'')]
        = Inr (\<lparr>UseLocalFileSystem = False,
                 ConfigurationServiceURL = ''http://configuration-service:8080''\<rparr>,
               \<lparr>ln_path = ''/'', ln_port = 8080\<rparr>)"
  using configuration_defaults [of decimal
      "[(''ENV'', ''production''), (''CONFIGURATION_SERVICE'', ''http://configuration-service:8080'')]"]
  by (simp add: decimal_def envconfig_Process_def main_startup_def main_keptnOptions_def
      main_listener_def keptnOptions_def field_value_def)

subsection \<open>Dead code\<close>

text \<open>
  C10. In \<^verbatim>\<open>processKeptnCloudEvent\<close> the second test of \<^verbatim>\<open>err\<close> (main.go, lines 69 to
  72) is never taken: no run returns through line 71, and no run logs the line
  \<^verbatim>\<open>failed to parse incoming cloudevent\<close>, whatever the event, the options and the
  behaviour of the library and of the handlers.
\<close>

theorem second_error_check_unreachable:
  "run_outcome (processKeptnCloudEvent X opts event) \<noteq> Returned Line71 err
   \<and> LogError lg (''failed to parse incoming cloudevent: '' @ e)
        \<notin> set (run_log (processKeptnCloudEvent X opts event))"
  by (simp add: processKeptnCloudEvent_def leave_def return_handler_def Let_def
      split: prod.splits option.splits fatal.splits handler_outcome.splits)

end
